theory Spec2Isabelle
  imports Main "HOL-Library.Word" "HOL-Library.Sublist"
begin

section \<open>The sound-file handle of API.cpp\<close>

subsection \<open>Data\<close>

text \<open>\<^verbatim>\<open>enum class SoundError : int32_t\<close> and its numeric values.\<close>

datatype SoundError = NO_ERROR | FILE_NOT_FOUND | UNKNOWN_TYPE | INVALID_FILE

fun SoundError_int32 :: "SoundError \<Rightarrow> 32 word" where
  "SoundError_int32 NO_ERROR = 0"
| "SoundError_int32 FILE_NOT_FOUND = 1"
| "SoundError_int32 UNKNOWN_TYPE = 2"
| "SoundError_int32 INVALID_FILE = 3"

text \<open>\<^verbatim>\<open>struct SoundFileInfo\<close>: a \<^verbatim>\<open>uint64_t\<close> and two \<^verbatim>\<open>uint32_t\<close>.\<close>

record SoundFileInfo =
  totalFrames :: "64 word"
  sampleRate :: "32 word"
  channels :: "32 word"

text \<open>\<^verbatim>\<open>enum FileType : int32_t\<close> and its numeric values.\<close>

datatype FileType = TYPE_UNKNOWN | TYPE_WAV | TYPE_FLAC | TYPE_VORBIS

fun FileType_int32 :: "FileType \<Rightarrow> 32 word" where
  "FileType_int32 TYPE_UNKNOWN = 0"
| "FileType_int32 TYPE_WAV = 1"
| "FileType_int32 TYPE_FLAC = 2"
| "FileType_int32 TYPE_VORBIS = 3"

text \<open>
  The decoder objects of the three libraries. Their headers (dr_wav.h, dr_flac.h,
  stb_vorbis.c) are not among the sources; only the fields the handle reads are kept,
  with the widths the libraries declare: \<^verbatim>\<open>drwav\<close> has a 64-bit frame count, a 32-bit
  sample rate and 16-bit channels, \<^verbatim>\<open>drflac\<close> has 8-bit channels, and stb_vorbis
  reports \<^verbatim>\<open>unsigned int sample_rate\<close>, \<^verbatim>\<open>int channels\<close> and an \<^verbatim>\<open>unsigned int\<close>
  stream length. The \<^verbatim>\<open>int\<close> is kept as its two's-complement bit pattern
  (\<^term>\<open>sint\<close> reads its value).
\<close>

record drwav =
  drwav_totalPCMFrameCount :: "64 word"
  drwav_sampleRate :: "32 word"
  drwav_channels :: "16 word"

record drflac =
  drflac_totalPCMFrameCount :: "64 word"
  drflac_sampleRate :: "32 word"
  drflac_channels :: "8 word"

record stb_vorbis =
  vorbis_sample_rate :: "32 word"
  vorbis_channels :: "32 word"
  vorbis_stream_length_in_samples :: "32 word"

text \<open>
  The anonymous union \<^verbatim>\<open>handle_\<close> stores one pointer. \<^term>\<open>None\<close> is \<^verbatim>\<open>nullptr\<close>;
  a non-null pointer is modelled by the object it points to, tagged with the union
  member through which it was written. The private members \<^verbatim>\<open>type_\<close>, \<^verbatim>\<open>fileName_\<close>,
  \<^verbatim>\<open>handle_\<close>, \<^verbatim>\<open>info_\<close> and \<^verbatim>\<open>lastError_\<close> are the fields \<open>m_type\<close> to
  \<open>m_lastError\<close> (an identifier cannot end in an underscore here).
\<close>

datatype decoder = Wav_ptr drwav | Flac_ptr drflac | Vorbis_ptr stb_vorbis

record SoundFileHandle =
  m_type :: FileType
  m_fileName :: string
  m_handle :: "decoder option"
  m_info :: SoundFileInfo
  m_lastError :: SoundError

text \<open>
  What the constructor asks of the outside: whether \<^verbatim>\<open>std::ifstream\<close> could open the
  path, and what each library's open routine answers for it (\<^term>\<open>None\<close> is the
  library's failure value: \<^verbatim>\<open>DRWAV_FALSE\<close> or a null pointer).
\<close>

record environment =
  ifstream_is_open :: "string \<Rightarrow> bool"
  drwav_init_file :: "string \<Rightarrow> drwav option"
  drflac_open_file :: "string \<Rightarrow> drflac option"
  stb_vorbis_open_filename :: "string \<Rightarrow> stb_vorbis option"

text \<open>
  The calls into the libraries and the allocator, in the order they are made. The flag of
  an open event says whether the library reported success.
\<close>

datatype event =
    New_drwav | Delete_drwav
  | Drwav_init_file bool | Drwav_uninit
  | Drflac_open_file bool | Drflac_close
  | Stb_vorbis_open_filename bool | Stb_vorbis_close
  | New_SoundFileHandle | Delete_SoundFileHandle

text \<open>Behaviour the C++ standard leaves undefined is a value of the model.\<close>

datatype fault = Division_by_zero | Invalid_pointer

subsection \<open>The constructor\<close>

text \<open>The member initialiser list (lines 60 to 64); \<^verbatim>\<open>info_{ }\<close> zeroes the struct.\<close>

definition member_init :: "string \<Rightarrow> SoundFileHandle" where
  "member_init file =
     \<lparr>m_type = TYPE_UNKNOWN, m_fileName = file, m_handle = None,
      m_info = \<lparr>totalFrames = 0, sampleRate = 0, channels = 0\<rparr>,
      m_lastError = NO_ERROR\<rparr>"

text \<open>\<^verbatim>\<open>std::string::find_last_of(char)\<close>; \<^term>\<open>None\<close> is \<^verbatim>\<open>npos\<close>.\<close>

fun find_last_of :: "string \<Rightarrow> char \<Rightarrow> nat option" where
  "find_last_of [] c = None"
| "find_last_of (x # xs) c =
     (case find_last_of xs c of
        Some i \<Rightarrow> Some (Suc i)
      | None \<Rightarrow> if x = c then Some 0 else None)"

text \<open>\<^verbatim>\<open>std::string::substr(pos)\<close>, called only with a position inside the string.\<close>

definition substr :: "string \<Rightarrow> nat \<Rightarrow> string" where
  "substr s pos = drop pos s"

text \<open>The nested conditional of lines 81 to 84.\<close>

definition type_of_ext :: "string \<Rightarrow> FileType" where
  "type_of_ext ext =
     (if ext = ''.wav'' then TYPE_WAV
      else if ext = ''.flac'' then TYPE_FLAC
      else if ext = ''.ogg'' then TYPE_VORBIS
      else TYPE_UNKNOWN)"

text \<open>Lines 92 to 112: open the file with the library chosen by \<^verbatim>\<open>type_\<close>.\<close>

definition initialize_file ::
  "environment \<Rightarrow> string \<Rightarrow> SoundFileHandle \<Rightarrow> SoundFileHandle \<times> event list" where
  "initialize_file env file h =
     (if m_type h = TYPE_WAV then
        (case drwav_init_file env file of
           None \<Rightarrow>
             (h\<lparr>m_handle := None, m_lastError := INVALID_FILE\<rparr>,
              [New_drwav, Drwav_init_file False, Delete_drwav])
         | Some w \<Rightarrow>
             (h\<lparr>m_handle := Some (Wav_ptr w)\<rparr>, [New_drwav, Drwav_init_file True]))
      else if m_type h = TYPE_FLAC then
        (case drflac_open_file env file of
           None \<Rightarrow>
             (h\<lparr>m_handle := None, m_lastError := INVALID_FILE\<rparr>, [Drflac_open_file False])
         | Some f \<Rightarrow>
             (h\<lparr>m_handle := Some (Flac_ptr f)\<rparr>, [Drflac_open_file True]))
      else if m_type h = TYPE_VORBIS then
        (case stb_vorbis_open_filename env file of
           None \<Rightarrow>
             (h\<lparr>m_handle := None, m_lastError := INVALID_FILE\<rparr>,
              [Stb_vorbis_open_filename False])
         | Some v \<Rightarrow>
             (h\<lparr>m_handle := Some (Vorbis_ptr v)\<rparr>, [Stb_vorbis_open_filename True]))
      else (h, []))"

text \<open>
  Lines 118 to 134: read the library's fields through the pointer. The narrower channel
  fields are zero-extended to \<^verbatim>\<open>uint32_t\<close>. In \<^verbatim>\<open>count / info.channels\<close> the dividend
  is \<^verbatim>\<open>unsigned int\<close>, so the \<^verbatim>\<open>int\<close> divisor is converted to \<^verbatim>\<open>unsigned int\<close> (its
  bit pattern is kept) and the division is the unsigned one of 32 bits; the quotient is
  then widened to 64 bits. A zero divisor, and a read through a null pointer or through
  the wrong union member, are faults.
\<close>

definition load_file_information :: "SoundFileHandle \<Rightarrow> fault + SoundFileHandle" where
  "load_file_information h =
     (if m_type h = TYPE_WAV then
        (case m_handle h of
           Some (Wav_ptr w) \<Rightarrow>
             Inr (h\<lparr>m_info := \<lparr>totalFrames = drwav_totalPCMFrameCount w,
                               sampleRate = drwav_sampleRate w,
                               channels = ucast (drwav_channels w)\<rparr>\<rparr>)
         | _ \<Rightarrow> Inl Invalid_pointer)
      else if m_type h = TYPE_FLAC then
        (case m_handle h of
           Some (Flac_ptr f) \<Rightarrow>
             Inr (h\<lparr>m_info := \<lparr>totalFrames = drflac_totalPCMFrameCount f,
                               sampleRate = drflac_sampleRate f,
                               channels = ucast (drflac_channels f)\<rparr>\<rparr>)
         | _ \<Rightarrow> Inl Invalid_pointer)
      else
        (case m_handle h of
           Some (Vorbis_ptr v) \<Rightarrow>
             (if vorbis_channels v = 0 then Inl Division_by_zero
              else
                Inr (h\<lparr>m_info :=
                  \<lparr>totalFrames = ucast (vorbis_stream_length_in_samples v div vorbis_channels v),
                   sampleRate = vorbis_sample_rate v,
                   channels = vorbis_channels v\<rparr>\<rparr>))
         | _ \<Rightarrow> Inl Invalid_pointer))"

text \<open>
  The constructor \<^verbatim>\<open>SoundFileHandle(const std::string& file)\<close>: the handle it leaves
  and the library calls it made, or a fault.
\<close>

definition SoundFileHandle_ctor ::
  "environment \<Rightarrow> string \<Rightarrow> fault + SoundFileHandle \<times> event list" where
  "SoundFileHandle_ctor env file =
     (let h = member_init file in
      if \<not> ifstream_is_open env file then Inr (h\<lparr>m_lastError := FILE_NOT_FOUND\<rparr>, [])
      else
        (case find_last_of file CHR ''.'' of
           None \<Rightarrow> Inr (h\<lparr>m_lastError := UNKNOWN_TYPE\<rparr>, [])
         | Some extPos \<Rightarrow>
             (let h1 = h\<lparr>m_type := type_of_ext (substr file extPos)\<rparr> in
              if m_type h1 = TYPE_UNKNOWN then Inr (h1\<lparr>m_lastError := UNKNOWN_TYPE\<rparr>, [])
              else
                (case initialize_file env file h1 of
                   (h2, evs) \<Rightarrow>
                     if m_lastError h2 = INVALID_FILE then Inr (h2, evs)
                     else
                       (case load_file_information h2 of
                          Inl f \<Rightarrow> Inl f
                        | Inr h3 \<Rightarrow> Inr (h3\<lparr>m_lastError := NO_ERROR\<rparr>, evs))))))"

subsection \<open>The destructor and the queries\<close>

text \<open>Lines 138 to 150: the teardown calls the destructor makes.\<close>

definition SoundFileHandle_dtor :: "SoundFileHandle \<Rightarrow> event list" where
  "SoundFileHandle_dtor h =
     (if m_type h = TYPE_WAV \<and> m_handle h \<noteq> None then [Drwav_uninit, Delete_drwav]
      else if m_type h = TYPE_FLAC \<and> m_handle h \<noteq> None then [Drflac_close]
      else if m_type h = TYPE_VORBIS \<and> m_handle h \<noteq> None then [Stb_vorbis_close]
      else [])"

definition type :: "SoundFileHandle \<Rightarrow> FileType" where
  "type h = m_type h"

definition fileName :: "SoundFileHandle \<Rightarrow> string" where
  "fileName h = m_fileName h"

definition info :: "SoundFileHandle \<Rightarrow> SoundFileInfo" where
  "info h = m_info h"

definition hasError :: "SoundFileHandle \<Rightarrow> bool" where
  "hasError h = (m_lastError h \<noteq> NO_ERROR)"

definition error :: "SoundFileHandle \<Rightarrow> SoundError" where
  "error h = m_lastError h"

subsection \<open>The exported functions\<close>

text \<open>
  A \<^verbatim>\<open>SoundFileHandle*\<close> is \<^term>\<open>None\<close> for the null pointer and the handle it points
  to otherwise. The queries take a valid pointer.
\<close>

definition soundGetFileType :: "SoundFileHandle \<Rightarrow> 32 word" where
  "soundGetFileType file = FileType_int32 (type file)"

definition soundGetFileName :: "SoundFileHandle \<Rightarrow> string" where
  "soundGetFileName file = fileName file"

definition soundGetError :: "SoundFileHandle \<Rightarrow> 32 word" where
  "soundGetError file = SoundError_int32 (error file)"

definition soundGetFrameCount :: "SoundFileHandle \<Rightarrow> 64 word" where
  "soundGetFrameCount file = totalFrames (info file)"

definition soundGetSampleRate :: "SoundFileHandle \<Rightarrow> 32 word" where
  "soundGetSampleRate file = sampleRate (info file)"

definition soundGetChannelCount :: "SoundFileHandle \<Rightarrow> 32 word" where
  "soundGetChannelCount file = channels (info file)"

text \<open>The three out-parameters of \<^verbatim>\<open>soundGetInfo\<close> are its result.\<close>

definition soundGetInfo :: "SoundFileHandle \<Rightarrow> 64 word \<times> 32 word \<times> 32 word" where
  "soundGetInfo file =
     (totalFrames (info file), sampleRate (info file), channels (info file))"

text \<open>
  \<^verbatim>\<open>soundOpenFile\<close>: the returned pointer, the value written to \<^verbatim>\<open>*error\<close> and the
  calls made. \<^verbatim>\<open>new\<close> allocates before the constructor runs; \<^verbatim>\<open>delete\<close> runs the
  destructor and then frees.
\<close>

definition soundOpenFile ::
  "environment \<Rightarrow> string \<Rightarrow> fault + SoundFileHandle option \<times> 32 word \<times> event list" where
  "soundOpenFile env fname =
     (case SoundFileHandle_ctor env fname of
        Inl f \<Rightarrow> Inl f
      | Inr (handle, evs) \<Rightarrow>
          (let err = SoundError_int32 (error handle) in
           if hasError handle then
             Inr (None, err,
                  New_SoundFileHandle # evs @ SoundFileHandle_dtor handle @ [Delete_SoundFileHandle])
           else Inr (Some handle, err, New_SoundFileHandle # evs)))"

text \<open>\<^verbatim>\<open>soundCloseFile\<close>: \<^verbatim>\<open>delete\<close> of a null pointer does nothing.\<close>

definition soundCloseFile :: "SoundFileHandle option \<Rightarrow> event list" where
  "soundCloseFile file =
     (case file of
        None \<Rightarrow> []
      | Some h \<Rightarrow> SoundFileHandle_dtor h @ [Delete_SoundFileHandle])"

subsection \<open>Counting library calls\<close>

text \<open>
  Each library is observed through two counters: the opens that succeeded and the
  teardown calls. A list of calls is balanced when, for each library, the two agree, and
  when every allocation has its release.
\<close>

definition opens :: "event list \<Rightarrow> nat" where
  "opens evs =
     count_list evs (Drwav_init_file True) + count_list evs (Drflac_open_file True)
       + count_list evs (Stb_vorbis_open_filename True)"

definition closes :: "event list \<Rightarrow> nat" where
  "closes evs =
     count_list evs Drwav_uninit + count_list evs Drflac_close
       + count_list evs Stb_vorbis_close"

definition balanced :: "event list \<Rightarrow> bool" where
  "balanced evs =
     (count_list evs (Drwav_init_file True) = count_list evs Drwav_uninit \<and>
      count_list evs (Drflac_open_file True) = count_list evs Drflac_close \<and>
      count_list evs (Stb_vorbis_open_filename True) = count_list evs Stb_vorbis_close \<and>
      count_list evs New_drwav = count_list evs Delete_drwav \<and>
      count_list evs New_SoundFileHandle = count_list evs Delete_SoundFileHandle)"

text \<open>The teardown each library asks for, by the variant a pointer belongs to.\<close>

fun teardown :: "decoder option \<Rightarrow> event list" where
  "teardown None = []"
| "teardown (Some (Wav_ptr w)) = [Drwav_uninit, Delete_drwav]"
| "teardown (Some (Flac_ptr f)) = [Drflac_close]"
| "teardown (Some (Vorbis_ptr v)) = [Stb_vorbis_close]"

text \<open>The union member a pointer was written through agrees with the type tag.\<close>

fun variant_matches :: "FileType \<Rightarrow> decoder option \<Rightarrow> bool" where
  "variant_matches t None = True"
| "variant_matches t (Some (Wav_ptr w)) = (t = TYPE_WAV)"
| "variant_matches t (Some (Flac_ptr f)) = (t = TYPE_FLAC)"
| "variant_matches t (Some (Vorbis_ptr v)) = (t = TYPE_VORBIS)"

subsection \<open>Sequences of queries\<close>

text \<open>
  The member functions \<^verbatim>\<open>type\<close>, \<^verbatim>\<open>fileName\<close>, \<^verbatim>\<open>info\<close>, \<^verbatim>\<open>hasError\<close>, \<^verbatim>\<open>error\<close> and the
  seven exported accessors, as calls on a handle that give back an answer and the handle
  as the call left it.
\<close>

datatype query =
    Q_type | Q_fileName | Q_info | Q_hasError | Q_error
  | Q_soundGetFileType | Q_soundGetFileName | Q_soundGetError | Q_soundGetFrameCount
  | Q_soundGetSampleRate | Q_soundGetChannelCount | Q_soundGetInfo

datatype answer =
    A_FileType FileType | A_string string | A_SoundFileInfo SoundFileInfo | A_bool bool
  | A_SoundError SoundError | A_int32 "32 word" | A_uint64 "64 word" | A_uint32 "32 word"
  | A_out "64 word \<times> 32 word \<times> 32 word"

fun call :: "query \<Rightarrow> SoundFileHandle \<Rightarrow> answer \<times> SoundFileHandle" where
  "call Q_type h = (A_FileType (type h), h)"
| "call Q_fileName h = (A_string (fileName h), h)"
| "call Q_info h = (A_SoundFileInfo (info h), h)"
| "call Q_hasError h = (A_bool (hasError h), h)"
| "call Q_error h = (A_SoundError (error h), h)"
| "call Q_soundGetFileType h = (A_int32 (soundGetFileType h), h)"
| "call Q_soundGetFileName h = (A_string (soundGetFileName h), h)"
| "call Q_soundGetError h = (A_int32 (soundGetError h), h)"
| "call Q_soundGetFrameCount h = (A_uint64 (soundGetFrameCount h), h)"
| "call Q_soundGetSampleRate h = (A_uint32 (soundGetSampleRate h), h)"
| "call Q_soundGetChannelCount h = (A_uint32 (soundGetChannelCount h), h)"
| "call Q_soundGetInfo h = (A_out (soundGetInfo h), h)"

fun calls :: "query list \<Rightarrow> SoundFileHandle \<Rightarrow> answer list \<times> SoundFileHandle" where
  "calls [] h = ([], h)"
| "calls (q # qs) h =
     (case call q h of (a, h') \<Rightarrow>
        (case calls qs h' of (as, h'') \<Rightarrow> (a # as, h'')))"

subsection \<open>The specification's view\<close>

text \<open>
  The format a path implies, in the specification's words: the mapping of the suffixes
  \<open>.wav\<close>, \<open>.flac\<close> and \<open>.ogg\<close>, compared as written, and Unknown for anything else.
\<close>

definition format_of_suffix :: "string \<Rightarrow> FileType" where
  "format_of_suffix path =
     (if suffix ''.wav'' path then TYPE_WAV
      else if suffix ''.flac'' path then TYPE_FLAC
      else if suffix ''.ogg'' path then TYPE_VORBIS
      else TYPE_UNKNOWN)"

text \<open>The library chosen for the path's suffix does not accept the file.\<close>

definition library_open_fails :: "environment \<Rightarrow> string \<Rightarrow> bool" where
  "library_open_fails env file =
     (case format_of_suffix file of
        TYPE_UNKNOWN \<Rightarrow> False
      | TYPE_WAV \<Rightarrow> drwav_init_file env file = None
      | TYPE_FLAC \<Rightarrow> drflac_open_file env file = None
      | TYPE_VORBIS \<Rightarrow> stb_vorbis_open_filename env file = None)"

text \<open>
  The one way the constructor can fault: the path opens, ends in \<open>.ogg\<close>, and
  stb_vorbis accepts the file while reporting no channels.
\<close>

definition vorbis_reports_no_channels :: "environment \<Rightarrow> string \<Rightarrow> bool" where
  "vorbis_reports_no_channels env file =
     (ifstream_is_open env file \<and> suffix ''.ogg'' file \<and>
      (case stb_vorbis_open_filename env file of
         None \<Rightarrow> False
       | Some v \<Rightarrow> vorbis_channels v = 0))"

text \<open>
  Modelled from the spec: the header validation of the three decoder libraries
  (dr_wav.h, dr_flac.h and stb_vorbis.c are not among the sources). The specification
  says of the files they accept that well-formed containers never report zero as channel
  count or as sample rate; this is that guarantee, for the answers to one path.
\<close>

definition never_report_zero :: "environment \<Rightarrow> string \<Rightarrow> bool" where
  "never_report_zero env file =
     ((case drwav_init_file env file of
         None \<Rightarrow> True
       | Some w \<Rightarrow> 1 \<le> unat (drwav_channels w) \<and> 1 \<le> unat (drwav_sampleRate w)) \<and>
      (case drflac_open_file env file of
         None \<Rightarrow> True
       | Some f \<Rightarrow> 1 \<le> unat (drflac_channels f) \<and> 1 \<le> unat (drflac_sampleRate f)) \<and>
      (case stb_vorbis_open_filename env file of
         None \<Rightarrow> True
       | Some v \<Rightarrow> 1 \<le> sint (vorbis_channels v) \<and> 1 \<le> unat (vorbis_sample_rate v)))"

subsection \<open>A sample environment\<close>

text \<open>
  Eight paths open; \<open>missing.wav\<close> and any other path do not. One file of each format
  is accepted by its library; \<open>mute.ogg\<close> is accepted with a channel count of zero.
\<close>

definition sample_env :: environment where
  "sample_env =
     \<lparr>ifstream_is_open = (\<lambda>p. p \<in> set [''song.ogg'', ''notes.txt'', ''corrupt.flac'',
        ''take.wav'', ''LOUD.WAV'', ''mute.ogg'', ''README'', ''strings.flac'',
        ''noise.ogg'', ''short.wav'']),
      drwav_init_file = (\<lambda>p. if p = ''take.wav''
        then Some \<lparr>drwav_totalPCMFrameCount = 96000, drwav_sampleRate = 48000,
                   drwav_channels = 1\<rparr>
        else None),
      drflac_open_file = (\<lambda>p. if p = ''strings.flac''
        then Some \<lparr>drflac_totalPCMFrameCount = 192000, drflac_sampleRate = 96000,
                   drflac_channels = 2\<rparr>
        else None),
      stb_vorbis_open_filename = (\<lambda>p.
        if p = ''song.ogg''
        then Some \<lparr>vorbis_sample_rate = 44100, vorbis_channels = 2,
                   vorbis_stream_length_in_samples = 88200\<rparr>
        else if p = ''mute.ogg''
        then Some \<lparr>vorbis_sample_rate = 44100, vorbis_channels = 0,
                   vorbis_stream_length_in_samples = 88200\<rparr>
        else None)\<rparr>"

text \<open>The handles the constructor leaves for the three accepted files.\<close>

definition take_wav :: SoundFileHandle where
  "take_wav =
     \<lparr>m_type = TYPE_WAV, m_fileName = ''take.wav'',
      m_handle = Some (Wav_ptr \<lparr>drwav_totalPCMFrameCount = 96000, drwav_sampleRate = 48000,
                                drwav_channels = 1\<rparr>),
      m_info = \<lparr>totalFrames = 96000, sampleRate = 48000, channels = 1\<rparr>,
      m_lastError = NO_ERROR\<rparr>"

definition strings_flac :: SoundFileHandle where
  "strings_flac =
     \<lparr>m_type = TYPE_FLAC, m_fileName = ''strings.flac'',
      m_handle = Some (Flac_ptr \<lparr>drflac_totalPCMFrameCount = 192000,
                                 drflac_sampleRate = 96000, drflac_channels = 2\<rparr>),
      m_info = \<lparr>totalFrames = 192000, sampleRate = 96000, channels = 2\<rparr>,
      m_lastError = NO_ERROR\<rparr>"

definition song_ogg :: SoundFileHandle where
  "song_ogg =
     \<lparr>m_type = TYPE_VORBIS, m_fileName = ''song.ogg'',
      m_handle = Some (Vorbis_ptr \<lparr>vorbis_sample_rate = 44100, vorbis_channels = 2,
                                   vorbis_stream_length_in_samples = 88200\<rparr>),
      m_info = \<lparr>totalFrames = 44100, sampleRate = 44100, channels = 2\<rparr>,
      m_lastError = NO_ERROR\<rparr>"

text \<open>The handle left for \<open>corrupt.flac\<close>, which opens and is refused by dr_flac.\<close>

definition corrupt_flac :: SoundFileHandle where
  "corrupt_flac =
     \<lparr>m_type = TYPE_FLAC, m_fileName = ''corrupt.flac'', m_handle = None,
      m_info = \<lparr>totalFrames = 0, sampleRate = 0, channels = 0\<rparr>,
      m_lastError = INVALID_FILE\<rparr>"

section \<open>Properties\<close>

subsection \<open>The extension and the suffix\<close>

lemma find_last_of_None: "find_last_of s c = None \<longleftrightarrow> c \<notin> set s"
  by (induction s) (auto split: option.splits)

lemma find_last_of_append:
  "c \<notin> set rest \<Longrightarrow> find_last_of (pre @ c # rest) c = Some (length pre)"
proof (induction pre)
  case Nil
  then have "find_last_of rest c = None" by (simp add: find_last_of_None)
  then show ?case by simp
next
  case (Cons a pre)
  then show ?case by simp
qed

lemma ext_eq_iff_suffix:
  assumes "c \<notin> set e"
  shows "(\<exists>i. find_last_of s c = Some i \<and> substr s i = c # e) \<longleftrightarrow> suffix (c # e) s"
proof
  assume "\<exists>i. find_last_of s c = Some i \<and> substr s i = c # e"
  then obtain i where "drop i s = c # e" by (auto simp: substr_def)
  then have "s = take i s @ c # e" by (metis append_take_drop_id)
  then show "suffix (c # e) s" by (metis suffixI)
next
  assume "suffix (c # e) s"
  then obtain pre where s: "s = pre @ c # e" by (auto simp: suffix_def)
  with assms have "find_last_of s c = Some (length pre)" by (simp add: find_last_of_append)
  moreover from s have "substr s (length pre) = c # e" by (simp add: substr_def)
  ultimately show "\<exists>i. find_last_of s c = Some i \<and> substr s i = c # e" by blast
qed

lemma substr_eq_iff_suffix:
  assumes "find_last_of s c = Some i" "c \<notin> set e"
  shows "substr s i = c # e \<longleftrightarrow> suffix (c # e) s"
  using ext_eq_iff_suffix [OF assms(2), of s] assms(1) by auto

lemma type_of_ext_suffix:
  "find_last_of file CHR ''.'' = Some i \<Longrightarrow> type_of_ext (substr file i) = format_of_suffix file"
  using substr_eq_iff_suffix [of "file" "CHR ''.''" i "''wav''"]
    substr_eq_iff_suffix [of "file" "CHR ''.''" i "''flac''"]
    substr_eq_iff_suffix [of "file" "CHR ''.''" i "''ogg''"]
  by (simp add: type_of_ext_def format_of_suffix_def)

lemma no_dot_unknown:
  "CHR ''.'' \<notin> set file \<Longrightarrow> format_of_suffix file = TYPE_UNKNOWN"
  by (auto simp: format_of_suffix_def suffix_def)

lemma format_of_suffix_iff:
  "format_of_suffix file = TYPE_WAV \<longleftrightarrow> suffix ''.wav'' file"
  "format_of_suffix file = TYPE_FLAC \<longleftrightarrow> suffix ''.flac'' file"
  "format_of_suffix file = TYPE_VORBIS \<longleftrightarrow> suffix ''.ogg'' file"
  "format_of_suffix file = TYPE_UNKNOWN \<longleftrightarrow>
     \<not> suffix ''.wav'' file \<and> \<not> suffix ''.flac'' file \<and> \<not> suffix ''.ogg'' file"
  by (auto simp: format_of_suffix_def suffix_def)

text \<open>
  The constructor in closed form: one result for each way through it, with the format
  read off the suffix.
\<close>

lemma ctor_eq:
  "SoundFileHandle_ctor env file =
     (if \<not> ifstream_is_open env file
      then Inr (member_init file\<lparr>m_lastError := FILE_NOT_FOUND\<rparr>, [])
      else case format_of_suffix file of
        TYPE_UNKNOWN \<Rightarrow> Inr (member_init file\<lparr>m_lastError := UNKNOWN_TYPE\<rparr>, [])
      | TYPE_WAV \<Rightarrow>
          (case drwav_init_file env file of
             None \<Rightarrow> Inr (member_init file\<lparr>m_type := TYPE_WAV, m_lastError := INVALID_FILE\<rparr>,
                        [New_drwav, Drwav_init_file False, Delete_drwav])
           | Some w \<Rightarrow> Inr (member_init file\<lparr>m_type := TYPE_WAV, m_handle := Some (Wav_ptr w),
                          m_info := \<lparr>totalFrames = drwav_totalPCMFrameCount w,
                                    sampleRate = drwav_sampleRate w,
                                    channels = ucast (drwav_channels w)\<rparr>\<rparr>,
                        [New_drwav, Drwav_init_file True]))
      | TYPE_FLAC \<Rightarrow>
          (case drflac_open_file env file of
             None \<Rightarrow> Inr (member_init file\<lparr>m_type := TYPE_FLAC, m_lastError := INVALID_FILE\<rparr>,
                        [Drflac_open_file False])
           | Some f \<Rightarrow> Inr (member_init file\<lparr>m_type := TYPE_FLAC, m_handle := Some (Flac_ptr f),
                          m_info := \<lparr>totalFrames = drflac_totalPCMFrameCount f,
                                    sampleRate = drflac_sampleRate f,
                                    channels = ucast (drflac_channels f)\<rparr>\<rparr>,
                        [Drflac_open_file True]))
      | TYPE_VORBIS \<Rightarrow>
          (case stb_vorbis_open_filename env file of
             None \<Rightarrow> Inr (member_init file\<lparr>m_type := TYPE_VORBIS, m_lastError := INVALID_FILE\<rparr>,
                        [Stb_vorbis_open_filename False])
           | Some v \<Rightarrow>
               if vorbis_channels v = 0 then Inl Division_by_zero
               else Inr (member_init file\<lparr>m_type := TYPE_VORBIS, m_handle := Some (Vorbis_ptr v),
                          m_info := \<lparr>totalFrames =
                                      ucast (vorbis_stream_length_in_samples v div vorbis_channels v),
                                    sampleRate = vorbis_sample_rate v,
                                    channels = vorbis_channels v\<rparr>\<rparr>,
                        [Stb_vorbis_open_filename True])))"
proof (cases "find_last_of file CHR ''.''")
  case None
  then have "format_of_suffix file = TYPE_UNKNOWN"
    by (simp add: find_last_of_None no_dot_unknown)
  with None show ?thesis by (simp add: SoundFileHandle_ctor_def)
next
  case (Some i)
  then have t: "type_of_ext (substr file i) = format_of_suffix file"
    by (rule type_of_ext_suffix)
  show ?thesis
    by (cases "format_of_suffix file")
      (simp_all add: SoundFileHandle_ctor_def Some t member_init_def initialize_file_def
        load_file_information_def split: option.split)
qed

subsection \<open>Faults\<close>

lemma ctor_fault_iff:
  "SoundFileHandle_ctor env file = Inl f \<longleftrightarrow>
     f = Division_by_zero \<and> vorbis_reports_no_channels env file"
  by (cases "format_of_suffix file")
    (auto simp: ctor_eq vorbis_reports_no_channels_def format_of_suffix_iff(3) [symmetric]
      split: option.splits)

lemma ctor_total:
  "\<not> vorbis_reports_no_channels env file \<Longrightarrow>
   \<exists>h evs. SoundFileHandle_ctor env file = Inr (h, evs)"
  by (cases "SoundFileHandle_ctor env file") (auto simp: ctor_fault_iff)

subsection \<open>The constructor on the sample environment\<close>

lemmas ctor_unfold =
  SoundFileHandle_ctor_def member_init_def substr_def type_of_ext_def initialize_file_def
  load_file_information_def sample_env_def

lemma sample_take_wav:
  "SoundFileHandle_ctor sample_env ''take.wav'' = Inr (take_wav, [New_drwav, Drwav_init_file True])"
  by (simp add: ctor_unfold take_wav_def)

lemma sample_strings_flac:
  "SoundFileHandle_ctor sample_env ''strings.flac'' = Inr (strings_flac, [Drflac_open_file True])"
  by (simp add: ctor_unfold strings_flac_def)

lemma sample_song_ogg:
  "SoundFileHandle_ctor sample_env ''song.ogg'' = Inr (song_ogg, [Stb_vorbis_open_filename True])"
  by (simp add: ctor_unfold song_ogg_def)

lemma sample_corrupt_flac:
  "SoundFileHandle_ctor sample_env ''corrupt.flac'' = Inr (corrupt_flac, [Drflac_open_file False])"
  by (simp add: ctor_unfold corrupt_flac_def)

lemma sample_mute_ogg:
  "SoundFileHandle_ctor sample_env ''mute.ogg'' = Inl Division_by_zero"
  by (simp add: ctor_unfold)

lemma sample_missing_wav:
  "SoundFileHandle_ctor sample_env ''missing.wav'' =
     Inr (member_init ''missing.wav''\<lparr>m_lastError := FILE_NOT_FOUND\<rparr>, [])"
  by (simp add: ctor_unfold)

lemma sample_loud_wav:
  "SoundFileHandle_ctor sample_env ''LOUD.WAV'' =
     Inr (member_init ''LOUD.WAV''\<lparr>m_lastError := UNKNOWN_TYPE\<rparr>, [])"
  by (simp add: ctor_unfold)

lemma sample_readme:
  "SoundFileHandle_ctor sample_env ''README'' =
     Inr (member_init ''README''\<lparr>m_lastError := UNKNOWN_TYPE\<rparr>, [])"
  by (simp add: ctor_unfold)

subsection \<open>Conversions between the integer widths\<close>

lemma unat_ucast_16_32: "unat (ucast (x :: 16 word) :: 32 word) = unat x"
  by (simp add: unsigned_ucast_eq take_bit_nat_eq_self_iff)
     (rule less_trans [OF unsigned_less], simp)

lemma unat_ucast_8_32: "unat (ucast (x :: 8 word) :: 32 word) = unat x"
  by (simp add: unsigned_ucast_eq take_bit_nat_eq_self_iff)
     (rule less_trans [OF unsigned_less], simp)

lemma unat_ucast_32_64: "unat (ucast (x :: 32 word) :: 64 word) = unat x"
  by (simp add: unsigned_ucast_eq take_bit_nat_eq_self_iff)
     (rule less_trans [OF unsigned_less], simp)

lemma sint_nonneg_unat:
  assumes "0 \<le> sint (x :: 32 word)"
  shows "sint x = int (unat x)"
proof -
  have "sint x < 2 ^ 32" using sint_lt [of x] by simp
  with assms have "take_bit 32 (sint x) = sint x" by (simp add: take_bit_int_eq_self)
  moreover have "uint x = take_bit 32 (sint x)" using uint_sint [of x] by simp
  ultimately show ?thesis by simp
qed

lemma vorbis_frames_signed:
  assumes "1 \<le> sint (c :: 32 word)"
  shows "int (unat (ucast (n div c) :: 64 word)) = int (unat (n :: 32 word)) div sint c"
    and "int (unat c) = sint c"
proof -
  from assms have c: "sint c = int (unat c)" by (simp add: sint_nonneg_unat)
  then show "int (unat c) = sint c" by simp
  have "unat (ucast (n div c) :: 64 word) = unat n div unat c"
    by (simp only: unat_ucast_32_64 unat_div)
  then show "int (unat (ucast (n div c) :: 64 word)) = int (unat n) div sint c"
    by (simp only: c zdiv_int)
qed

lemma Suc_0_le_unat_iff: "Suc 0 \<le> unat (x :: 'a::len word) \<longleftrightarrow> x \<noteq> 0"
  using unat_gt_0 [of x] by auto

lemma ucast_16_32_eq_0: "(ucast (x :: 16 word) :: 32 word) = 0 \<longleftrightarrow> x = 0"
  using unat_ucast_16_32 [of x] by (metis unat_eq_zero)

lemma ucast_8_32_eq_0: "(ucast (x :: 8 word) :: 32 word) = 0 \<longleftrightarrow> x = 0"
  using unat_ucast_8_32 [of x] by (metis unat_eq_zero)

subsection \<open>The order of the failure checks\<close>

text \<open>
  C1. The constructor checks file access, then the extension, then the library's open,
  and stops at the first that fails. A path that does not open gives \<open>FILE_NOT_FOUND\<close>
  whatever its extension, with the type left Unknown, a null pointer and no library call.
  A path that opens and whose suffix is none of the three gives \<open>UNKNOWN_TYPE\<close>, again
  without any library call, so whatever the file holds. \<open>INVALID_FILE\<close> is the
  error of a path that opens, has one of the three suffixes, and is refused by its
  library; of every handle the constructor leaves, the error is the first of these
  failures, or \<open>NO_ERROR\<close> when there is none.
\<close>

theorem ctor_first_failure_wins:
  "(\<not> ifstream_is_open env file \<longrightarrow>
      (\<exists>h. SoundFileHandle_ctor env file = Inr (h, []) \<and> m_lastError h = FILE_NOT_FOUND \<and>
         m_type h = TYPE_UNKNOWN \<and> m_handle h = None)) \<and>
   (ifstream_is_open env file \<and> format_of_suffix file = TYPE_UNKNOWN \<longrightarrow>
      (\<exists>h. SoundFileHandle_ctor env file = Inr (h, []) \<and> m_lastError h = UNKNOWN_TYPE \<and>
         m_type h = TYPE_UNKNOWN \<and> m_handle h = None)) \<and>
   (ifstream_is_open env file \<and> format_of_suffix file \<noteq> TYPE_UNKNOWN \<and>
    library_open_fails env file \<longrightarrow>
      (\<exists>h evs. SoundFileHandle_ctor env file = Inr (h, evs) \<and> m_lastError h = INVALID_FILE)) \<and>
   (\<forall>h evs. SoundFileHandle_ctor env file = Inr (h, evs) \<longrightarrow>
      m_lastError h =
        (if \<not> ifstream_is_open env file then FILE_NOT_FOUND
         else if format_of_suffix file = TYPE_UNKNOWN then UNKNOWN_TYPE
         else if library_open_fails env file then INVALID_FILE
         else NO_ERROR))"
proof (intro conjI impI allI)
  assume "\<not> ifstream_is_open env file"
  then show "\<exists>h. SoundFileHandle_ctor env file = Inr (h, []) \<and> m_lastError h = FILE_NOT_FOUND \<and>
         m_type h = TYPE_UNKNOWN \<and> m_handle h = None"
    by (simp add: ctor_eq member_init_def)
next
  assume "ifstream_is_open env file \<and> format_of_suffix file = TYPE_UNKNOWN"
  then show "\<exists>h. SoundFileHandle_ctor env file = Inr (h, []) \<and> m_lastError h = UNKNOWN_TYPE \<and>
         m_type h = TYPE_UNKNOWN \<and> m_handle h = None"
    by (simp add: ctor_eq member_init_def)
next
  assume "ifstream_is_open env file \<and> format_of_suffix file \<noteq> TYPE_UNKNOWN \<and>
    library_open_fails env file"
  then show "\<exists>h evs. SoundFileHandle_ctor env file = Inr (h, evs) \<and> m_lastError h = INVALID_FILE"
    by (cases "format_of_suffix file") (simp_all add: ctor_eq library_open_fails_def)
next
  fix h evs
  assume "SoundFileHandle_ctor env file = Inr (h, evs)"
  then show "m_lastError h =
        (if \<not> ifstream_is_open env file then FILE_NOT_FOUND
         else if format_of_suffix file = TYPE_UNKNOWN then UNKNOWN_TYPE
         else if library_open_fails env file then INVALID_FILE
         else NO_ERROR)"
    by (cases "format_of_suffix file")
      (auto simp: ctor_eq library_open_fails_def member_init_def
        split: if_splits option.splits)
qed

theorem ctor_first_failure_wins_witness:
  "(\<exists>h. SoundFileHandle_ctor sample_env ''missing.txt'' = Inr (h, []) \<and>
      m_lastError h = FILE_NOT_FOUND \<and> m_type h = TYPE_UNKNOWN \<and> m_handle h = None) \<and>
   (\<exists>h. SoundFileHandle_ctor sample_env ''notes.txt'' = Inr (h, []) \<and>
      m_lastError h = UNKNOWN_TYPE \<and> m_type h = TYPE_UNKNOWN \<and> m_handle h = None) \<and>
   (\<exists>h evs. SoundFileHandle_ctor sample_env ''corrupt.flac'' = Inr (h, evs) \<and>
      m_lastError h = INVALID_FILE)"
proof -
  have a: "\<not> ifstream_is_open sample_env ''missing.txt''"
    by (simp add: sample_env_def)
  have b: "ifstream_is_open sample_env ''notes.txt'' \<and>
      format_of_suffix ''notes.txt'' = TYPE_UNKNOWN"
    by (simp add: sample_env_def format_of_suffix_def suffix_to_prefix)
  have c: "ifstream_is_open sample_env ''corrupt.flac'' \<and>
      format_of_suffix ''corrupt.flac'' \<noteq> TYPE_UNKNOWN \<and>
      library_open_fails sample_env ''corrupt.flac''"
    by (simp add: sample_env_def format_of_suffix_def suffix_to_prefix library_open_fails_def)
  from a b c show ?thesis
    using ctor_first_failure_wins [of sample_env "''missing.txt''"]
      ctor_first_failure_wins [of sample_env "''notes.txt''"]
      ctor_first_failure_wins [of sample_env "''corrupt.flac''"]
    by blast
qed

subsection \<open>The metadata of an opened file\<close>

text \<open>
  C2. When the library's open succeeds, the constructor fills in the metadata: for
  \<open>.wav\<close> and \<open>.flac\<close> the library's frame count, sample rate and channel count
  are copied (the narrower channel field keeps its value); for \<open>.ogg\<close> the frame
  count is the stream length divided by the channel count, by integer division, whenever
  that count is not zero (the unsigned division of 32 bits, which for a channel count of
  at least 1 is the division by the signed number stb_vorbis declares). The type is the one of the extension and the error is
  \<open>NO_ERROR\<close>. For \<open>song.ogg\<close> with 2 channels, 44100 Hz and 88200 samples the
  metadata is (44100, 44100, 2).
\<close>

theorem ctor_populates_metadata:
  "ifstream_is_open env file \<Longrightarrow>
   (suffix ''.wav'' file \<and> drwav_init_file env file = Some w \<longrightarrow>
      (\<exists>h evs. SoundFileHandle_ctor env file = Inr (h, evs) \<and>
         type h = TYPE_WAV \<and> error h = NO_ERROR \<and>
         totalFrames (info h) = drwav_totalPCMFrameCount w \<and>
         sampleRate (info h) = drwav_sampleRate w \<and>
         channels (info h) = ucast (drwav_channels w) \<and>
         unat (channels (info h)) = unat (drwav_channels w))) \<and>
   (suffix ''.flac'' file \<and> drflac_open_file env file = Some f \<longrightarrow>
      (\<exists>h evs. SoundFileHandle_ctor env file = Inr (h, evs) \<and>
         type h = TYPE_FLAC \<and> error h = NO_ERROR \<and>
         totalFrames (info h) = drflac_totalPCMFrameCount f \<and>
         sampleRate (info h) = drflac_sampleRate f \<and>
         channels (info h) = ucast (drflac_channels f) \<and>
         unat (channels (info h)) = unat (drflac_channels f))) \<and>
   (suffix ''.ogg'' file \<and> stb_vorbis_open_filename env file = Some v \<and>
    vorbis_channels v \<noteq> 0 \<longrightarrow>
      (\<exists>h evs. SoundFileHandle_ctor env file = Inr (h, evs) \<and>
         type h = TYPE_VORBIS \<and> error h = NO_ERROR \<and>
         totalFrames (info h) =
           ucast (vorbis_stream_length_in_samples v div vorbis_channels v) \<and>
         unat (totalFrames (info h)) =
           unat (vorbis_stream_length_in_samples v) div unat (vorbis_channels v) \<and>
         sampleRate (info h) = vorbis_sample_rate v \<and>
         channels (info h) = vorbis_channels v \<and>
         (1 \<le> sint (vorbis_channels v) \<longrightarrow>
            int (unat (channels (info h))) = sint (vorbis_channels v) \<and>
            int (unat (totalFrames (info h))) =
              int (unat (vorbis_stream_length_in_samples v)) div sint (vorbis_channels v))))"
proof (intro conjI impI)
  assume o: "ifstream_is_open env file"
    and "suffix ''.wav'' file \<and> drwav_init_file env file = Some w"
  then have "format_of_suffix file = TYPE_WAV" "drwav_init_file env file = Some w"
    by (simp_all add: format_of_suffix_iff)
  with o show "\<exists>h evs. SoundFileHandle_ctor env file = Inr (h, evs) \<and>
         type h = TYPE_WAV \<and> error h = NO_ERROR \<and>
         totalFrames (info h) = drwav_totalPCMFrameCount w \<and>
         sampleRate (info h) = drwav_sampleRate w \<and>
         channels (info h) = ucast (drwav_channels w) \<and>
         unat (channels (info h)) = unat (drwav_channels w)"
    by (simp add: ctor_eq type_def error_def info_def member_init_def unat_ucast_16_32)
next
  assume o: "ifstream_is_open env file"
    and "suffix ''.flac'' file \<and> drflac_open_file env file = Some f"
  then have "format_of_suffix file = TYPE_FLAC" "drflac_open_file env file = Some f"
    by (simp_all add: format_of_suffix_iff)
  with o show "\<exists>h evs. SoundFileHandle_ctor env file = Inr (h, evs) \<and>
         type h = TYPE_FLAC \<and> error h = NO_ERROR \<and>
         totalFrames (info h) = drflac_totalPCMFrameCount f \<and>
         sampleRate (info h) = drflac_sampleRate f \<and>
         channels (info h) = ucast (drflac_channels f) \<and>
         unat (channels (info h)) = unat (drflac_channels f)"
    by (simp add: ctor_eq type_def error_def info_def member_init_def unat_ucast_8_32)
next
  assume o: "ifstream_is_open env file"
    and "suffix ''.ogg'' file \<and> stb_vorbis_open_filename env file = Some v \<and>
      vorbis_channels v \<noteq> 0"
  then have a: "format_of_suffix file = TYPE_VORBIS"
    "stb_vorbis_open_filename env file = Some v" "vorbis_channels v \<noteq> 0"
    by (simp_all add: format_of_suffix_iff)
  let ?n = "vorbis_stream_length_in_samples v" and ?c = "vorbis_channels v"
  from o a obtain h evs where c: "SoundFileHandle_ctor env file = Inr (h, evs)"
    and h: "type h = TYPE_VORBIS" "error h = NO_ERROR" "sampleRate (info h) = vorbis_sample_rate v"
    and f: "totalFrames (info h) = ucast (?n div ?c)"
    and n: "channels (info h) = ?c"
    by (simp add: ctor_eq type_def error_def info_def member_init_def)
  have u: "unat (totalFrames (info h)) = unat ?n div unat ?c"
    unfolding f by (simp only: unat_ucast_32_64 unat_div)
  have s: "1 \<le> sint ?c \<longrightarrow>
      int (unat (channels (info h))) = sint ?c \<and>
      int (unat (totalFrames (info h))) = int (unat ?n) div sint ?c"
    unfolding f n using vorbis_frames_signed [of ?c] by blast
  from c h f n u s show "\<exists>h evs. SoundFileHandle_ctor env file = Inr (h, evs) \<and>
         type h = TYPE_VORBIS \<and> error h = NO_ERROR \<and>
         totalFrames (info h) =
           ucast (vorbis_stream_length_in_samples v div vorbis_channels v) \<and>
         unat (totalFrames (info h)) =
           unat (vorbis_stream_length_in_samples v) div unat (vorbis_channels v) \<and>
         sampleRate (info h) = vorbis_sample_rate v \<and>
         channels (info h) = vorbis_channels v \<and>
         (1 \<le> sint (vorbis_channels v) \<longrightarrow>
            int (unat (channels (info h))) = sint (vorbis_channels v) \<and>
            int (unat (totalFrames (info h))) =
              int (unat (vorbis_stream_length_in_samples v)) div sint (vorbis_channels v))"
    by blast
qed

theorem ctor_populates_metadata_witness:
  "\<exists>h evs. SoundFileHandle_ctor sample_env ''song.ogg'' = Inr (h, evs) \<and>
     type h = TYPE_VORBIS \<and> error h = NO_ERROR \<and>
     info h = \<lparr>totalFrames = 44100, sampleRate = 44100, channels = 2\<rparr>"
proof -
  let ?v = "\<lparr>vorbis_sample_rate = 44100, vorbis_channels = 2,
     vorbis_stream_length_in_samples = 88200\<rparr>"
  have o: "ifstream_is_open sample_env ''song.ogg''"
    by (simp add: sample_env_def)
  have v: "suffix ''.ogg'' ''song.ogg'' \<and>
      stb_vorbis_open_filename sample_env ''song.ogg'' = Some ?v \<and> vorbis_channels ?v \<noteq> 0"
    by (simp add: sample_env_def suffix_to_prefix)
  from ctor_populates_metadata [OF o, of _ _ ?v] v
  obtain h evs where "SoundFileHandle_ctor sample_env ''song.ogg'' = Inr (h, evs)"
    "type h = TYPE_VORBIS" "error h = NO_ERROR"
    "totalFrames (info h) = ucast (vorbis_stream_length_in_samples ?v div vorbis_channels ?v)"
    "sampleRate (info h) = vorbis_sample_rate ?v" "channels (info h) = vorbis_channels ?v"
    by blast
  then show ?thesis by (intro exI [of _ h] exI [of _ evs]) simp
qed

subsection \<open>The pointer of a constructed handle\<close>

text \<open>
  C3. Of every handle the constructor leaves, the pointer in the union is non-null exactly
  when the error is \<open>NO_ERROR\<close> and the type is not Unknown. The pointer is of the
  variant the type names, and the constructor made one successful library open when the
  pointer is non-null and none otherwise, without any teardown: a handle never holds two
  resources.
\<close>

theorem ctor_resource_invariant:
  "SoundFileHandle_ctor env file = Inr (h, evs) \<Longrightarrow>
     (m_handle h \<noteq> None \<longleftrightarrow> m_lastError h = NO_ERROR \<and> m_type h \<noteq> TYPE_UNKNOWN) \<and>
     variant_matches (m_type h) (m_handle h) \<and>
     opens evs = (if m_handle h = None then 0 else 1) \<and> closes evs = 0"
  by (cases "format_of_suffix file")
    (auto simp: ctor_eq member_init_def opens_def closes_def split: if_splits option.splits)

theorem ctor_resource_invariant_witness:
  "SoundFileHandle_ctor sample_env ''take.wav'' =
     Inr (take_wav, [New_drwav, Drwav_init_file True]) \<and>
   SoundFileHandle_ctor sample_env ''corrupt.flac'' =
     Inr (corrupt_flac, [Drflac_open_file False]) \<and>
   ((m_handle take_wav \<noteq> None \<longleftrightarrow> m_lastError take_wav = NO_ERROR \<and> m_type take_wav \<noteq> TYPE_UNKNOWN) \<and>
     variant_matches (m_type take_wav) (m_handle take_wav) \<and>
     opens [New_drwav, Drwav_init_file True] = 1 \<and> m_handle take_wav \<noteq> None) \<and>
   ((m_handle corrupt_flac \<noteq> None \<longleftrightarrow>
       m_lastError corrupt_flac = NO_ERROR \<and> m_type corrupt_flac \<noteq> TYPE_UNKNOWN) \<and>
     opens [Drflac_open_file False] = 0 \<and> m_handle corrupt_flac = None)"
  using ctor_resource_invariant [OF sample_take_wav]
    ctor_resource_invariant [OF sample_corrupt_flac]
    sample_take_wav sample_corrupt_flac
  by (simp add: take_wav_def corrupt_flac_def)

subsection \<open>The type of a handle and the extension\<close>

text \<open>
  C4. What the constructor detects (the text from the last dot on, compared with the
  three extensions as written) is the format the path's suffix implies in the
  specification's mapping; a path without a dot has format Unknown. For a path that
  opens, the type of the handle is that format; when it is Unknown the handle carries
  \<open>UNKNOWN_TYPE\<close>, a null pointer, and no library was called. So the type of every
  successfully opened handle is the format of its extension, and is not Unknown. The
  comparison is case sensitive: \<open>LOUD.WAV\<close> is Unknown.
\<close>

theorem ctor_type_from_extension:
  "(case find_last_of file CHR ''.'' of
      None \<Rightarrow> TYPE_UNKNOWN
    | Some extPos \<Rightarrow> type_of_ext (substr file extPos)) = format_of_suffix file \<and>
   (CHR ''.'' \<notin> set file \<longrightarrow> format_of_suffix file = TYPE_UNKNOWN) \<and>
   (ifstream_is_open env file \<longrightarrow>
      (\<forall>h evs. SoundFileHandle_ctor env file = Inr (h, evs) \<longrightarrow>
         type h = format_of_suffix file)) \<and>
   (ifstream_is_open env file \<and> format_of_suffix file = TYPE_UNKNOWN \<longrightarrow>
      (\<exists>h. SoundFileHandle_ctor env file = Inr (h, []) \<and> type h = TYPE_UNKNOWN \<and>
         error h = UNKNOWN_TYPE \<and> m_handle h = None)) \<and>
   (\<forall>h evs. SoundFileHandle_ctor env file = Inr (h, evs) \<and> error h = NO_ERROR \<longrightarrow>
      type h = format_of_suffix file \<and> type h \<noteq> TYPE_UNKNOWN)"
proof (intro conjI impI allI)
  show "(case find_last_of file CHR ''.'' of
      None \<Rightarrow> TYPE_UNKNOWN
    | Some extPos \<Rightarrow> type_of_ext (substr file extPos)) = format_of_suffix file"
  proof (cases "find_last_of file CHR ''.''")
    case None
    then have "CHR ''.'' \<notin> set file" by (simp add: find_last_of_None)
    with None show ?thesis by (simp add: no_dot_unknown)
  next
    case (Some extPos)
    then show ?thesis by (simp add: type_of_ext_suffix)
  qed
next
  assume "CHR ''.'' \<notin> set file"
  then show "format_of_suffix file = TYPE_UNKNOWN" by (rule no_dot_unknown)
next
  fix h evs
  assume "ifstream_is_open env file" "SoundFileHandle_ctor env file = Inr (h, evs)"
  then show "type h = format_of_suffix file"
    by (cases "format_of_suffix file")
      (auto simp: ctor_eq type_def member_init_def split: option.splits if_splits)
next
  assume "ifstream_is_open env file \<and> format_of_suffix file = TYPE_UNKNOWN"
  then show "\<exists>h. SoundFileHandle_ctor env file = Inr (h, []) \<and> type h = TYPE_UNKNOWN \<and>
         error h = UNKNOWN_TYPE \<and> m_handle h = None"
    by (simp add: ctor_eq type_def error_def member_init_def)
next
  fix h evs
  assume a: "SoundFileHandle_ctor env file = Inr (h, evs) \<and> error h = NO_ERROR"
  then show "type h = format_of_suffix file"
    by (cases "format_of_suffix file")
      (auto simp: ctor_eq type_def error_def member_init_def split: option.splits if_splits)
  from a show "type h \<noteq> TYPE_UNKNOWN"
    by (cases "format_of_suffix file")
      (auto simp: ctor_eq type_def error_def member_init_def split: option.splits if_splits)
qed

theorem ctor_type_from_extension_witness:
  "type take_wav = TYPE_WAV \<and> format_of_suffix ''take.wav'' = TYPE_WAV \<and>
   type strings_flac = TYPE_FLAC \<and> format_of_suffix ''strings.flac'' = TYPE_FLAC \<and>
   type song_ogg = TYPE_VORBIS \<and> format_of_suffix ''song.ogg'' = TYPE_VORBIS \<and>
   type corrupt_flac = TYPE_FLAC \<and>
   (\<exists>h. SoundFileHandle_ctor sample_env ''LOUD.WAV'' = Inr (h, []) \<and> type h = TYPE_UNKNOWN \<and>
      error h = UNKNOWN_TYPE \<and> m_handle h = None) \<and>
   (\<exists>h. SoundFileHandle_ctor sample_env ''README'' = Inr (h, []) \<and> type h = TYPE_UNKNOWN \<and>
      error h = UNKNOWN_TYPE \<and> m_handle h = None)"
proof -
  have o: "ifstream_is_open sample_env ''take.wav''" "ifstream_is_open sample_env ''strings.flac''"
    "ifstream_is_open sample_env ''song.ogg''" "ifstream_is_open sample_env ''corrupt.flac''"
    "ifstream_is_open sample_env ''LOUD.WAV''" "ifstream_is_open sample_env ''README''"
    by (simp_all add: sample_env_def)
  have f: "format_of_suffix ''take.wav'' = TYPE_WAV"
    "format_of_suffix ''strings.flac'' = TYPE_FLAC"
    "format_of_suffix ''song.ogg'' = TYPE_VORBIS"
    "format_of_suffix ''corrupt.flac'' = TYPE_FLAC"
    "format_of_suffix ''LOUD.WAV'' = TYPE_UNKNOWN"
    by (simp_all add: format_of_suffix_def suffix_to_prefix)
  have r: "CHR ''.'' \<notin> set ''README''" by simp
  from ctor_type_from_extension [of "''README''" sample_env] r
  have u: "format_of_suffix ''README'' = TYPE_UNKNOWN" by blast
  show ?thesis
    using ctor_type_from_extension [of "''take.wav''" sample_env]
      ctor_type_from_extension [of "''strings.flac''" sample_env]
      ctor_type_from_extension [of "''song.ogg''" sample_env]
      ctor_type_from_extension [of "''corrupt.flac''" sample_env]
      ctor_type_from_extension [of "''LOUD.WAV''" sample_env]
      ctor_type_from_extension [of "''README''" sample_env]
      o f u sample_take_wav sample_strings_flac sample_song_ogg sample_corrupt_flac
    by (simp add: type_def take_wav_def strings_flac_def song_ogg_def corrupt_flac_def)
qed

subsection \<open>The metadata of a failed handle\<close>

text \<open>
  C7. Of every handle the constructor leaves with an error, whichever of the three, the
  frame count, the sample rate and the channel count are all zero, as the accessors
  report them.
\<close>

theorem failed_ctor_leaves_info_zero:
  "SoundFileHandle_ctor env file = Inr (h, evs) \<Longrightarrow> hasError h \<Longrightarrow>
     info h = \<lparr>totalFrames = 0, sampleRate = 0, channels = 0\<rparr> \<and>
     soundGetInfo h = (0, 0, 0) \<and> soundGetFrameCount h = 0 \<and> soundGetSampleRate h = 0 \<and>
     soundGetChannelCount h = 0"
  by (cases "format_of_suffix file")
    (auto simp: ctor_eq member_init_def hasError_def info_def soundGetInfo_def
      soundGetFrameCount_def soundGetSampleRate_def soundGetChannelCount_def
      split: if_splits option.splits)

theorem failed_ctor_leaves_info_zero_witness:
  "hasError corrupt_flac \<and> error corrupt_flac = INVALID_FILE \<and>
   info corrupt_flac = \<lparr>totalFrames = 0, sampleRate = 0, channels = 0\<rparr> \<and>
   (let h = member_init ''missing.wav''\<lparr>m_lastError := FILE_NOT_FOUND\<rparr>
    in hasError h \<and> info h = \<lparr>totalFrames = 0, sampleRate = 0, channels = 0\<rparr>) \<and>
   (let h = member_init ''LOUD.WAV''\<lparr>m_lastError := UNKNOWN_TYPE\<rparr>
    in hasError h \<and> info h = \<lparr>totalFrames = 0, sampleRate = 0, channels = 0\<rparr>)"
proof -
  have a: "hasError corrupt_flac" "error corrupt_flac = INVALID_FILE"
    by (simp_all add: hasError_def error_def corrupt_flac_def)
  have b: "hasError (member_init ''missing.wav''\<lparr>m_lastError := FILE_NOT_FOUND\<rparr>)"
    by (simp add: hasError_def)
  have c: "hasError (member_init ''LOUD.WAV''\<lparr>m_lastError := UNKNOWN_TYPE\<rparr>)"
    by (simp add: hasError_def)
  show ?thesis
    using failed_ctor_leaves_info_zero [OF sample_corrupt_flac a(1)]
      failed_ctor_leaves_info_zero [OF sample_missing_wav b]
      failed_ctor_leaves_info_zero [OF sample_loud_wav c] a b c
    by (simp add: Let_def)
qed

subsection \<open>The boundary: opening\<close>

lemma SoundError_int32_iff:
  "SoundError_int32 e = 0 \<longleftrightarrow> e = NO_ERROR"
  "SoundError_int32 e = 1 \<longleftrightarrow> e = FILE_NOT_FOUND"
  "SoundError_int32 e = 2 \<longleftrightarrow> e = UNKNOWN_TYPE"
  "SoundError_int32 e = 3 \<longleftrightarrow> e = INVALID_FILE"
  by (cases e; simp)+

lemma sample_open_song_ogg:
  "soundOpenFile sample_env ''song.ogg'' =
     Inr (Some song_ogg, 0, [New_SoundFileHandle, Stb_vorbis_open_filename True])"
  by (simp add: soundOpenFile_def sample_song_ogg hasError_def error_def song_ogg_def)

lemma sample_open_take_wav:
  "soundOpenFile sample_env ''take.wav'' =
     Inr (Some take_wav, 0, [New_SoundFileHandle, New_drwav, Drwav_init_file True])"
  by (simp add: soundOpenFile_def sample_take_wav hasError_def error_def take_wav_def)

lemma sample_open_missing_wav:
  "soundOpenFile sample_env ''missing.wav'' =
     Inr (None, 1, [New_SoundFileHandle, Delete_SoundFileHandle])"
  by (simp add: soundOpenFile_def sample_missing_wav hasError_def error_def
      SoundFileHandle_dtor_def member_init_def)

lemma sample_open_loud_wav:
  "soundOpenFile sample_env ''LOUD.WAV'' =
     Inr (None, 2, [New_SoundFileHandle, Delete_SoundFileHandle])"
  by (simp add: soundOpenFile_def sample_loud_wav hasError_def error_def
      SoundFileHandle_dtor_def member_init_def)

lemma sample_open_corrupt_flac:
  "soundOpenFile sample_env ''corrupt.flac'' =
     Inr (None, 3, [New_SoundFileHandle, Drflac_open_file False, Delete_SoundFileHandle])"
  by (simp add: soundOpenFile_def sample_corrupt_flac hasError_def error_def
      SoundFileHandle_dtor_def corrupt_flac_def)

text \<open>
  C5. Unless stb_vorbis reports no channels, \<^verbatim>\<open>soundOpenFile\<close> returns. What it writes
  to the out-parameter is the code of the constructed handle's error (0 for
  \<open>NO_ERROR\<close>, 1 for \<open>FILE_NOT_FOUND\<close>, 2 for \<open>UNKNOWN_TYPE\<close>, 3 for
  \<open>INVALID_FILE\<close>). The returned pointer is non-null exactly when the code is 0, and is
  then the constructed handle; on any other code the destructor has run, the handle has
  been freed, and null is returned.
\<close>

theorem soundOpenFile_contract:
  "(\<not> vorbis_reports_no_channels env file \<longrightarrow>
      (\<exists>r err evs. soundOpenFile env file = Inr (r, err, evs))) \<and>
   (\<forall>r err evs. soundOpenFile env file = Inr (r, err, evs) \<longrightarrow>
      (\<exists>h cevs. SoundFileHandle_ctor env file = Inr (h, cevs) \<and>
         err = SoundError_int32 (error h) \<and>
         (err = 0 \<longleftrightarrow> error h = NO_ERROR) \<and>
         (err = 1 \<longleftrightarrow> error h = FILE_NOT_FOUND) \<and>
         (err = 2 \<longleftrightarrow> error h = UNKNOWN_TYPE) \<and>
         (err = 3 \<longleftrightarrow> error h = INVALID_FILE) \<and>
         (r \<noteq> None \<longleftrightarrow> err = 0) \<and>
         (err = 0 \<longrightarrow> r = Some h \<and> evs = New_SoundFileHandle # cevs) \<and>
         (err \<noteq> 0 \<longrightarrow> r = None \<and>
            evs = New_SoundFileHandle # cevs @ SoundFileHandle_dtor h @
              [Delete_SoundFileHandle])))"
proof (intro conjI impI allI)
  assume "\<not> vorbis_reports_no_channels env file"
  then obtain h cevs where "SoundFileHandle_ctor env file = Inr (h, cevs)"
    using ctor_total by blast
  then show "\<exists>r err evs. soundOpenFile env file = Inr (r, err, evs)"
    by (simp add: soundOpenFile_def Let_def)
next
  fix r err evs
  assume a: "soundOpenFile env file = Inr (r, err, evs)"
  then obtain h cevs where c: "SoundFileHandle_ctor env file = Inr (h, cevs)"
    by (cases "SoundFileHandle_ctor env file") (auto simp: soundOpenFile_def)
  with a have "err = SoundError_int32 (error h) \<and>
         (r \<noteq> None \<longleftrightarrow> err = 0) \<and>
         (err = 0 \<longrightarrow> r = Some h \<and> evs = New_SoundFileHandle # cevs) \<and>
         (err \<noteq> 0 \<longrightarrow> r = None \<and>
            evs = New_SoundFileHandle # cevs @ SoundFileHandle_dtor h @
              [Delete_SoundFileHandle])"
    by (auto simp: soundOpenFile_def Let_def hasError_def error_def SoundError_int32_iff
        split: if_splits)
  with c show "\<exists>h cevs. SoundFileHandle_ctor env file = Inr (h, cevs) \<and>
         err = SoundError_int32 (error h) \<and>
         (err = 0 \<longleftrightarrow> error h = NO_ERROR) \<and>
         (err = 1 \<longleftrightarrow> error h = FILE_NOT_FOUND) \<and>
         (err = 2 \<longleftrightarrow> error h = UNKNOWN_TYPE) \<and>
         (err = 3 \<longleftrightarrow> error h = INVALID_FILE) \<and>
         (r \<noteq> None \<longleftrightarrow> err = 0) \<and>
         (err = 0 \<longrightarrow> r = Some h \<and> evs = New_SoundFileHandle # cevs) \<and>
         (err \<noteq> 0 \<longrightarrow> r = None \<and>
            evs = New_SoundFileHandle # cevs @ SoundFileHandle_dtor h @
              [Delete_SoundFileHandle])"
    by (simp add: SoundError_int32_iff)
qed

theorem soundOpenFile_contract_witness:
  "soundOpenFile sample_env ''song.ogg'' =
     Inr (Some song_ogg, 0, [New_SoundFileHandle, Stb_vorbis_open_filename True]) \<and>
   soundOpenFile sample_env ''missing.wav'' =
     Inr (None, 1, [New_SoundFileHandle, Delete_SoundFileHandle]) \<and>
   soundOpenFile sample_env ''LOUD.WAV'' =
     Inr (None, 2, [New_SoundFileHandle, Delete_SoundFileHandle]) \<and>
   soundOpenFile sample_env ''corrupt.flac'' =
     Inr (None, 3, [New_SoundFileHandle, Drflac_open_file False, Delete_SoundFileHandle]) \<and>
   error song_ogg = NO_ERROR \<and> error corrupt_flac = INVALID_FILE \<and>
   SoundFileHandle_dtor corrupt_flac = []"
proof -
  have n: "\<not> vorbis_reports_no_channels sample_env ''song.ogg''"
    by (simp add: vorbis_reports_no_channels_def sample_env_def)
  from soundOpenFile_contract [of sample_env "''song.ogg''"] n
  have "\<exists>r err evs. soundOpenFile sample_env ''song.ogg'' = Inr (r, err, evs)"
    by blast
  moreover
  from soundOpenFile_contract [of sample_env "''song.ogg''"] sample_open_song_ogg
    sample_song_ogg
  have "error song_ogg = NO_ERROR" by auto
  moreover
  from soundOpenFile_contract [of sample_env "''corrupt.flac''"] sample_open_corrupt_flac
    sample_corrupt_flac
  have "error corrupt_flac = INVALID_FILE \<and> SoundFileHandle_dtor corrupt_flac = []" by auto
  ultimately show ?thesis
    using sample_open_song_ogg sample_open_missing_wav sample_open_loud_wav
      sample_open_corrupt_flac
    by simp
qed

subsection \<open>Release\<close>

lemma dtor_null: "m_handle h = None \<Longrightarrow> SoundFileHandle_dtor h = []"
  by (simp add: SoundFileHandle_dtor_def)

lemma ctor_then_dtor:
  assumes "SoundFileHandle_ctor env file = Inr (h, evs)"
  shows "SoundFileHandle_dtor h = teardown (m_handle h)"
    and "balanced (evs @ SoundFileHandle_dtor h)"
    and "opens (evs @ SoundFileHandle_dtor h) = closes (evs @ SoundFileHandle_dtor h)"
    and "closes (SoundFileHandle_dtor h) = (if m_handle h = None then 0 else 1)"
  using assms
  by (cases "format_of_suffix file";
      auto simp: ctor_eq member_init_def SoundFileHandle_dtor_def balanced_def opens_def
        closes_def split: if_splits option.splits)+

lemma balanced_new_delete:
  "balanced (New_SoundFileHandle # xs @ [Delete_SoundFileHandle]) = balanced xs"
  by (simp add: balanced_def)

lemma opens_closes_new_delete:
  "opens (New_SoundFileHandle # xs @ [Delete_SoundFileHandle]) = opens xs"
  "closes (New_SoundFileHandle # xs @ [Delete_SoundFileHandle]) = closes xs"
  by (simp_all add: opens_def closes_def)

lemma open_then_close:
  assumes "soundOpenFile env file = Inr (r, err, oevs)"
  shows "\<exists>h evs. SoundFileHandle_ctor env file = Inr (h, evs) \<and>
     oevs @ soundCloseFile r =
       New_SoundFileHandle # (evs @ SoundFileHandle_dtor h) @ [Delete_SoundFileHandle]"
  using assms
  by (cases "SoundFileHandle_ctor env file")
    (auto simp: soundOpenFile_def soundCloseFile_def Let_def split: if_splits)

text \<open>
  C6. The destructor of a handle with a null pointer calls no library. Of a handle the
  constructor leaves, the destructor makes the teardown of the variant the pointer
  belongs to, once (\<^verbatim>\<open>drwav_uninit\<close> and the release of the \<^verbatim>\<open>drwav\<close> object,
  \<^verbatim>\<open>drflac_close\<close>, or \<^verbatim>\<open>stb_vorbis_close\<close>), and \<^verbatim>\<open>soundCloseFile\<close> makes it before
  it frees the handle. The calls of the constructor followed by those of the destructor
  are balanced: every successful library open has its one teardown, and the \<^verbatim>\<open>drwav\<close>
  object allocated for an open that fails is released by the constructor. The same holds
  for \<^verbatim>\<open>soundOpenFile\<close> followed by \<^verbatim>\<open>soundCloseFile\<close> on the pointer it returned.
\<close>

theorem release_matches_opens:
  "(m_handle h0 = None \<longrightarrow> SoundFileHandle_dtor h0 = []) \<and>
   (\<forall>h evs. SoundFileHandle_ctor env file = Inr (h, evs) \<longrightarrow>
      SoundFileHandle_dtor h = teardown (m_handle h) \<and>
      closes (SoundFileHandle_dtor h) = (if m_handle h = None then 0 else 1) \<and>
      soundCloseFile (Some h) = teardown (m_handle h) @ [Delete_SoundFileHandle] \<and>
      opens (evs @ SoundFileHandle_dtor h) = closes (evs @ SoundFileHandle_dtor h) \<and>
      balanced (evs @ SoundFileHandle_dtor h)) \<and>
   (\<forall>r err oevs. soundOpenFile env file = Inr (r, err, oevs) \<longrightarrow>
      opens (oevs @ soundCloseFile r) = closes (oevs @ soundCloseFile r) \<and>
      balanced (oevs @ soundCloseFile r))"
proof (intro conjI impI allI)
  assume "m_handle h0 = None"
  then show "SoundFileHandle_dtor h0 = []" by (rule dtor_null)
next
  fix h evs
  assume c: "SoundFileHandle_ctor env file = Inr (h, evs)"
  show "SoundFileHandle_dtor h = teardown (m_handle h)"
    by (rule ctor_then_dtor(1) [OF c])
  then show "soundCloseFile (Some h) = teardown (m_handle h) @ [Delete_SoundFileHandle]"
    by (simp add: soundCloseFile_def)
  show "closes (SoundFileHandle_dtor h) = (if m_handle h = None then 0 else 1)"
    by (rule ctor_then_dtor(4) [OF c])
  show "opens (evs @ SoundFileHandle_dtor h) = closes (evs @ SoundFileHandle_dtor h)"
    by (rule ctor_then_dtor(3) [OF c])
  show "balanced (evs @ SoundFileHandle_dtor h)"
    by (rule ctor_then_dtor(2) [OF c])
next
  fix r err oevs
  assume "soundOpenFile env file = Inr (r, err, oevs)"
  then obtain h evs where c: "SoundFileHandle_ctor env file = Inr (h, evs)"
    and e: "oevs @ soundCloseFile r =
       New_SoundFileHandle # (evs @ SoundFileHandle_dtor h) @ [Delete_SoundFileHandle]"
    using open_then_close by blast
  show "opens (oevs @ soundCloseFile r) = closes (oevs @ soundCloseFile r)"
    unfolding e opens_closes_new_delete by (rule ctor_then_dtor(3) [OF c])
  show "balanced (oevs @ soundCloseFile r)"
    unfolding e balanced_new_delete by (rule ctor_then_dtor(2) [OF c])
qed

theorem release_matches_opens_witness:
  "soundCloseFile (Some take_wav) = [Drwav_uninit, Delete_drwav, Delete_SoundFileHandle] \<and>
   soundCloseFile (Some strings_flac) = [Drflac_close, Delete_SoundFileHandle] \<and>
   soundCloseFile (Some song_ogg) = [Stb_vorbis_close, Delete_SoundFileHandle] \<and>
   SoundFileHandle_dtor corrupt_flac = [] \<and>
   balanced ([New_SoundFileHandle, New_drwav, Drwav_init_file True] @
     soundCloseFile (Some take_wav)) \<and>
   balanced ([New_SoundFileHandle, Drflac_open_file False, Delete_SoundFileHandle] @
     soundCloseFile None)"
proof -
  note t = release_matches_opens [of corrupt_flac sample_env]
  have n: "m_handle corrupt_flac = None" by (simp add: corrupt_flac_def)
  from t [of "''take.wav''"] sample_take_wav
  have "soundCloseFile (Some take_wav) = teardown (m_handle take_wav) @ [Delete_SoundFileHandle]"
    by blast
  then have a: "soundCloseFile (Some take_wav) =
      [Drwav_uninit, Delete_drwav, Delete_SoundFileHandle]"
    by (simp add: take_wav_def)
  from t [of "''strings.flac''"] sample_strings_flac
  have "soundCloseFile (Some strings_flac) =
      teardown (m_handle strings_flac) @ [Delete_SoundFileHandle]"
    by blast
  then have b: "soundCloseFile (Some strings_flac) = [Drflac_close, Delete_SoundFileHandle]"
    by (simp add: strings_flac_def)
  from t [of "''song.ogg''"] sample_song_ogg
  have "soundCloseFile (Some song_ogg) = teardown (m_handle song_ogg) @ [Delete_SoundFileHandle]"
    by blast
  then have c: "soundCloseFile (Some song_ogg) = [Stb_vorbis_close, Delete_SoundFileHandle]"
    by (simp add: song_ogg_def)
  from t [of "''take.wav''"] n have d: "SoundFileHandle_dtor corrupt_flac = []"
    by blast
  from t [of "''take.wav''"] sample_open_take_wav
  have e: "balanced ([New_SoundFileHandle, New_drwav, Drwav_init_file True] @
     soundCloseFile (Some take_wav))"
    by blast
  from t [of "''corrupt.flac''"] sample_open_corrupt_flac
  have f: "balanced ([New_SoundFileHandle, Drflac_open_file False, Delete_SoundFileHandle] @
     soundCloseFile None)"
    by blast
  from a b c d e f show ?thesis by blast
qed

subsection \<open>Channel count and sample rate of an opened file\<close>

text \<open>
  C8. Given that the libraries never report zero for a file they accept, every handle the
  constructor leaves with \<open>NO_ERROR\<close> has a channel count of at least 1 and a sample
  rate of at least 1, as the accessors report them: the constructor copies the fields,
  and widening the channel field keeps its value.
\<close>

theorem opened_info_nonzero:
  "never_report_zero env file \<Longrightarrow> SoundFileHandle_ctor env file = Inr (h, evs) \<Longrightarrow>
   error h = NO_ERROR \<Longrightarrow>
     1 \<le> unat (channels (info h)) \<and> 1 \<le> unat (sampleRate (info h)) \<and>
     1 \<le> unat (soundGetChannelCount h) \<and> 1 \<le> unat (soundGetSampleRate h)"
  by (cases "format_of_suffix file")
    (auto simp: ctor_eq member_init_def never_report_zero_def error_def info_def
      soundGetChannelCount_def soundGetSampleRate_def ucast_16_32_eq_0 ucast_8_32_eq_0
      Suc_0_le_unat_iff
      split: if_splits option.splits)

theorem opened_info_nonzero_witness:
  "never_report_zero sample_env ''take.wav'' \<and> never_report_zero sample_env ''song.ogg'' \<and>
   error take_wav = NO_ERROR \<and> error song_ogg = NO_ERROR \<and>
   1 \<le> unat (channels (info take_wav)) \<and> 1 \<le> unat (sampleRate (info take_wav)) \<and>
   1 \<le> unat (channels (info song_ogg)) \<and> 1 \<le> unat (sampleRate (info song_ogg))"
proof -
  have n: "never_report_zero sample_env ''take.wav''" "never_report_zero sample_env ''song.ogg''"
    by (simp_all add: never_report_zero_def sample_env_def)
  have e: "error take_wav = NO_ERROR" "error song_ogg = NO_ERROR"
    by (simp_all add: error_def take_wav_def song_ogg_def)
  from opened_info_nonzero [OF n(1) sample_take_wav e(1)]
    opened_info_nonzero [OF n(2) sample_song_ogg e(2)] n e
  show ?thesis by blast
qed

subsection \<open>Queries\<close>

lemma call_keeps_handle: "snd (call q h) = h"
  by (cases q) simp_all

lemma calls_eq: "calls qs h = (map (\<lambda>q. fst (call q h)) qs, h)"
proof (induction qs)
  case Nil
  show ?case by simp
next
  case (Cons q qs)
  obtain a h' where c: "call q h = (a, h')" by (cases "call q h")
  with call_keeps_handle [of q h] have "h' = h" by simp
  with c Cons show ?case by simp
qed

text \<open>
  C9. A query leaves the handle as it was. So in any sequence of queries each answer is
  the answer the same query gives on the handle at the start, the handle after the
  sequence is the one before it, and a query repeated after any such sequence answers
  the same. The exported accessors answer what the member functions do, and
  \<^verbatim>\<open>soundGetInfo\<close> gives the three values of the single accessors.
\<close>

theorem queries_are_pure:
  "snd (call q h) = h \<and>
   calls qs h = (map (\<lambda>q. fst (call q h)) qs, h) \<and>
   fst (call q (snd (calls qs h))) = fst (call q h) \<and>
   soundGetInfo h = (soundGetFrameCount h, soundGetSampleRate h, soundGetChannelCount h) \<and>
   soundGetFileType h = FileType_int32 (type h) \<and>
   soundGetError h = SoundError_int32 (error h) \<and>
   soundGetFileName h = fileName h"
  by (simp add: call_keeps_handle calls_eq soundGetInfo_def soundGetFrameCount_def
      soundGetSampleRate_def soundGetChannelCount_def soundGetFileType_def soundGetError_def
      soundGetFileName_def)

theorem queries_are_pure_witness:
  "calls [Q_info, Q_soundGetInfo, Q_error, Q_info, Q_type, Q_soundGetFileType, Q_info] song_ogg =
     ([A_SoundFileInfo \<lparr>totalFrames = 44100, sampleRate = 44100, channels = 2\<rparr>,
       A_out (44100, 44100, 2), A_SoundError NO_ERROR,
       A_SoundFileInfo \<lparr>totalFrames = 44100, sampleRate = 44100, channels = 2\<rparr>,
       A_FileType TYPE_VORBIS, A_int32 3,
       A_SoundFileInfo \<lparr>totalFrames = 44100, sampleRate = 44100, channels = 2\<rparr>],
      song_ogg)"
proof -
  have "map (\<lambda>q. fst (call q song_ogg))
      [Q_info, Q_soundGetInfo, Q_error, Q_info, Q_type, Q_soundGetFileType, Q_info] =
     [A_SoundFileInfo \<lparr>totalFrames = 44100, sampleRate = 44100, channels = 2\<rparr>,
       A_out (44100, 44100, 2), A_SoundError NO_ERROR,
       A_SoundFileInfo \<lparr>totalFrames = 44100, sampleRate = 44100, channels = 2\<rparr>,
       A_FileType TYPE_VORBIS, A_int32 3,
       A_SoundFileInfo \<lparr>totalFrames = 44100, sampleRate = 44100, channels = 2\<rparr>]"
    by (simp add: info_def soundGetInfo_def error_def type_def soundGetFileType_def song_ogg_def)
  with queries_are_pure [of Q_info song_ogg
      "[Q_info, Q_soundGetInfo, Q_error, Q_info, Q_type, Q_soundGetFileType, Q_info]"]
  show ?thesis by simp
qed

subsection \<open>The unguarded division\<close>

text \<open>
  C10. The constructor faults in one way only, by dividing by zero, and it does so
  exactly when the path opens, ends in \<open>.ogg\<close>, and stb_vorbis accepts the file
  while reporting a channel count of zero; otherwise it returns a handle. For such a file
  that stb_vorbis accepts, the constructor returns exactly when the channel count, read
  as the unsigned number the handle stores, is at least 1; a count of at least 1 as the
  signed number stb_vorbis declares is enough.
\<close>

theorem vorbis_division_guard:
  "(SoundFileHandle_ctor env file = Inl f \<longleftrightarrow>
      f = Division_by_zero \<and> vorbis_reports_no_channels env file) \<and>
   ((\<exists>h evs. SoundFileHandle_ctor env file = Inr (h, evs)) \<longleftrightarrow>
      \<not> vorbis_reports_no_channels env file) \<and>
   (ifstream_is_open env file \<and> suffix ''.ogg'' file \<and>
    stb_vorbis_open_filename env file = Some v \<longrightarrow>
      (SoundFileHandle_ctor env file = Inl Division_by_zero \<longleftrightarrow> vorbis_channels v = 0) \<and>
      ((\<exists>h evs. SoundFileHandle_ctor env file = Inr (h, evs)) \<longleftrightarrow>
         1 \<le> unat (vorbis_channels v)) \<and>
      (1 \<le> sint (vorbis_channels v) \<longrightarrow>
         (\<exists>h evs. SoundFileHandle_ctor env file = Inr (h, evs))))"
proof -
  have a: "SoundFileHandle_ctor env file = Inl f \<longleftrightarrow>
      f = Division_by_zero \<and> vorbis_reports_no_channels env file" for f
    by (rule ctor_fault_iff)
  have b: "(\<exists>h evs. SoundFileHandle_ctor env file = Inr (h, evs)) \<longleftrightarrow>
      \<not> vorbis_reports_no_channels env file"
  proof
    assume "\<exists>h evs. SoundFileHandle_ctor env file = Inr (h, evs)"
    then show "\<not> vorbis_reports_no_channels env file"
      using a [of Division_by_zero] by auto
  next
    assume "\<not> vorbis_reports_no_channels env file"
    then show "\<exists>h evs. SoundFileHandle_ctor env file = Inr (h, evs)" by (rule ctor_total)
  qed
  have c: "vorbis_reports_no_channels env file \<longleftrightarrow> vorbis_channels v = 0"
    if "ifstream_is_open env file \<and> suffix ''.ogg'' file \<and>
      stb_vorbis_open_filename env file = Some v"
    using that by (simp add: vorbis_reports_no_channels_def)
  show ?thesis
    using a [of f] a [of Division_by_zero] b c
    by (auto simp: Suc_0_le_unat_iff)
qed

theorem vorbis_division_guard_witness:
  "SoundFileHandle_ctor sample_env ''mute.ogg'' = Inl Division_by_zero \<and>
   vorbis_reports_no_channels sample_env ''mute.ogg'' \<and>
   \<not> vorbis_reports_no_channels sample_env ''song.ogg'' \<and>
   (\<exists>h evs. SoundFileHandle_ctor sample_env ''song.ogg'' = Inr (h, evs))"
proof -
  let ?m = "\<lparr>vorbis_sample_rate = 44100, vorbis_channels = 0,
     vorbis_stream_length_in_samples = 88200\<rparr>"
  let ?s = "\<lparr>vorbis_sample_rate = 44100, vorbis_channels = 2,
     vorbis_stream_length_in_samples = 88200\<rparr>"
  have m: "ifstream_is_open sample_env ''mute.ogg'' \<and> suffix ''.ogg'' ''mute.ogg'' \<and>
      stb_vorbis_open_filename sample_env ''mute.ogg'' = Some ?m"
    by (simp add: sample_env_def suffix_to_prefix)
  have s: "ifstream_is_open sample_env ''song.ogg'' \<and> suffix ''.ogg'' ''song.ogg'' \<and>
      stb_vorbis_open_filename sample_env ''song.ogg'' = Some ?s"
    by (simp add: sample_env_def suffix_to_prefix)
  have z: "vorbis_channels ?m = 0" "1 \<le> sint (vorbis_channels ?s)" by simp_all
  from vorbis_division_guard [of sample_env "''mute.ogg''" Division_by_zero ?m] m z(1)
  have 1: "SoundFileHandle_ctor sample_env ''mute.ogg'' = Inl Division_by_zero \<and>
      vorbis_reports_no_channels sample_env ''mute.ogg''"
    by blast
  from vorbis_division_guard [of sample_env "''song.ogg''" Division_by_zero ?s] s z(2)
  have 2: "\<not> vorbis_reports_no_channels sample_env ''song.ogg'' \<and>
      (\<exists>h evs. SoundFileHandle_ctor sample_env ''song.ogg'' = Inr (h, evs))"
    by blast
  from 1 2 show ?thesis by blast
qed

end
